theory Spec2Isabelle
  imports Main "HOL-Library.Signed_Division"
begin

section \<open>The preprocessor fragment that CBL\_Edition.h is written in\<close>

text \<open>
  \<^verbatim>\<open>include/cbl/CBL_Edition.h\<close> consists of preprocessor directives only:
  one \<^verbatim>\<open>#ifndef ... #endif\<close> group and five object-like \<^verbatim>\<open>#define\<close>s.
  Its meaning is the change it makes to the macro table of the translation unit that
  includes it. The replacement list of each macro of the header is empty, one integer
  constant or one string literal.
\<close>

type_synonym macro_name = string

datatype replacement = NoTokens | IntLit int | StrLit string

datatype directive =
    Define macro_name replacement
  | Ifndef macro_name "directive list"

text \<open>
  A redefinition of an object-like macro with a different replacement list violates a
  constraint of the language (C11 6.10.3p2). The compilers the library is built with
  (gcc, clang, MSVC) report it and let the new definition take effect; a redefinition
  with the same replacement list is allowed and silent. The model does the same and
  keeps the report, so that a state reached through a conflict is still a state: what
  is proved of every state holds in particular of those a stricter compiler accepts.
\<close>

datatype diagnostic = Redefined macro_name

text \<open>
  The state of the preprocessor: the macro table, the diagnostics reported so far and,
  as a ghost field, how many definitions each name has received (a definition given on
  the command line or by an earlier file counts like a \<^verbatim>\<open>#define\<close>).
\<close>

record pp_state =
  macros :: "macro_name \<Rightarrow> replacement option"
  diags :: "diagnostic list"
  define_count :: "macro_name \<Rightarrow> nat"

definition redefinition :: "macro_name \<Rightarrow> replacement \<Rightarrow> pp_state \<Rightarrow> diagnostic list" where
  "redefinition n r s =
     (case macros s n of
        None \<Rightarrow> []
      | Some old \<Rightarrow> if old = r then [] else [Redefined n])"

definition define_macro :: "macro_name \<Rightarrow> replacement \<Rightarrow> pp_state \<Rightarrow> pp_state" where
  "define_macro n r s =
     \<lparr>macros = (macros s)(n \<mapsto> r),
      diags = diags s @ redefinition n r s,
      define_count = (define_count s)(n := Suc (define_count s n))\<rparr>"

fun run_directive :: "directive \<Rightarrow> pp_state \<Rightarrow> pp_state"
  and preprocess :: "directive list \<Rightarrow> pp_state \<Rightarrow> pp_state" where
  "run_directive (Define n r) s = define_macro n r s"
| "run_directive (Ifndef n body) s = (if macros s n = None then preprocess body s else s)"
| "preprocess [] s = s"
| "preprocess (d # ds) s = preprocess ds (run_directive d s)"

section \<open>The header\<close>

text \<open>
  \<^verbatim>\<open>
  #ifndef COUCHBASE_ENTERPRISE
  #define COUCHBASE_ENTERPRISE
  #endif

  #define CBLITE_VERSION "3.0.1"
  #define CBLITE_VERSION_NUMBER 3000001
  #define CBLITE_BUILD_NUMBER 7
  #define CBLITE_SOURCE_ID "2022-03-10T16:25:06 988a7ec+3da8078"
  \<close>
\<close>

definition CBL_Edition_h :: "directive list" where
  "CBL_Edition_h =
     [Ifndef ''COUCHBASE_ENTERPRISE'' [Define ''COUCHBASE_ENTERPRISE'' NoTokens],
      Define ''CBLITE_VERSION'' (StrLit ''3.0.1''),
      Define ''CBLITE_VERSION_NUMBER'' (IntLit 3000001),
      Define ''CBLITE_BUILD_NUMBER'' (IntLit 7),
      Define ''CBLITE_SOURCE_ID'' (StrLit ''2022-03-10T16:25:06 988a7ec+3da8078'')]"

definition include_header :: "pp_state \<Rightarrow> pp_state" where
  "include_header s = preprocess CBL_Edition_h s"

section \<open>Reading the constants\<close>

text \<open>
  Client code reads a constant by writing its name: the preprocessor replaces the name
  by the macro's replacement list and leaves the macro table as it is. A name with no
  definition is not replaced (the compiler then meets an undeclared identifier), and a
  replacement list of another kind than the one the reader expects does not give a value
  of that kind: both are \<open>None\<close>. The edition flag is read by testing whether its name is
  defined (\<^verbatim>\<open>#ifdef COUCHBASE_ENTERPRISE\<close>).
\<close>

definition expand :: "macro_name \<Rightarrow> pp_state \<Rightarrow> replacement option \<times> pp_state" where
  "expand n s = (macros s n, s)"

definition as_text :: "replacement option \<Rightarrow> string option" where
  "as_text r = (case r of Some (StrLit t) \<Rightarrow> Some t | _ \<Rightarrow> None)"

definition as_integer :: "replacement option \<Rightarrow> int option" where
  "as_integer r = (case r of Some (IntLit i) \<Rightarrow> Some i | _ \<Rightarrow> None)"

definition read_EditionFlag :: "pp_state \<Rightarrow> bool" where
  "read_EditionFlag s = (macros s ''COUCHBASE_ENTERPRISE'' \<noteq> None)"

definition read_VersionString :: "pp_state \<Rightarrow> string option" where
  "read_VersionString s = as_text (fst (expand ''CBLITE_VERSION'' s))"

definition read_VersionNumber :: "pp_state \<Rightarrow> int option" where
  "read_VersionNumber s = as_integer (fst (expand ''CBLITE_VERSION_NUMBER'' s))"

definition read_BuildNumber :: "pp_state \<Rightarrow> int option" where
  "read_BuildNumber s = as_integer (fst (expand ''CBLITE_BUILD_NUMBER'' s))"

definition read_SourceID :: "pp_state \<Rightarrow> string option" where
  "read_SourceID s = as_text (fst (expand ''CBLITE_SOURCE_ID'' s))"

section \<open>The specification's reading of a version\<close>

text \<open>
  Modelled from the spec: the parsing of a version string and the encoding of a version
  as a number. The header holds their results for one release only (the text
  \<open>3.0.1\<close> and the number 3000001); what computes a version number from a version,
  the release tooling that writes the header, is not among the sources. The definitions
  follow the words of the specification, to be compared with the constants of the
  header: a version string is three non-negative decimal integers separated by \<open>.\<close>,
  and its number is \<open>major * 1_000_000 + minor * 1_000 + patch\<close>. The characters of a
  C string literal are bytes, and the digits are the ten ASCII digits.
\<close>

type_synonym version = "nat \<times> nat \<times> nat"

definition is_digit :: "char \<Rightarrow> bool" where
  "is_digit c = (48 \<le> (of_char c :: nat) \<and> (of_char c :: nat) \<le> 57)"

definition digit_val :: "char \<Rightarrow> nat" where
  "digit_val c = of_char c - 48"

fun decimal_from :: "nat \<Rightarrow> string \<Rightarrow> nat option" where
  "decimal_from acc [] = Some acc"
| "decimal_from acc (c # cs) =
     (if is_digit c then decimal_from (10 * acc + digit_val c) cs else None)"

definition spec_decimal :: "string \<Rightarrow> nat option" where
  "spec_decimal t = (if t = [] then None else decimal_from 0 t)"

fun split_dots :: "string \<Rightarrow> string list" where
  "split_dots [] = [[]]"
| "split_dots (c # cs) =
     (if c = CHR ''.'' then [] # split_dots cs
      else (case split_dots cs of
              [] \<Rightarrow> [[c]]
            | f # fs \<Rightarrow> (c # f) # fs))"

definition spec_parse_version :: "string \<Rightarrow> version option" where
  "spec_parse_version t =
     (case split_dots t of
        [a, b, c] \<Rightarrow>
          (case (spec_decimal a, spec_decimal b, spec_decimal c) of
             (Some major, Some minor, Some patch) \<Rightarrow> Some (major, minor, patch)
           | _ \<Rightarrow> None)
      | _ \<Rightarrow> None)"

fun spec_encode_version :: "version \<Rightarrow> int" where
  "spec_encode_version (major, minor, patch) =
     int major * 1000000 + int minor * 1000 + int patch"

text \<open>
  Modelled from the spec: the pattern \<^verbatim>\<open>^\d+\.\d+\.\d+$\<close> of the version string,
  which nothing in the sources matches a text against. It is read from left to right. \<^verbatim>\<open>\d+\<close> takes one
  digit and then every digit that follows: what comes after it in the pattern is a dot
  or the end of the text, neither of which is a digit, so no shorter match can succeed.
\<close>

definition rx_digits1 :: "string \<Rightarrow> string option" where
  "rx_digits1 t =
     (case t of
        [] \<Rightarrow> None
      | c # cs \<Rightarrow> if is_digit c then Some (dropWhile is_digit cs) else None)"

definition rx_dot :: "string \<Rightarrow> string option" where
  "rx_dot t = (case t of [] \<Rightarrow> None | c # cs \<Rightarrow> if c = CHR ''.'' then Some cs else None)"

definition spec_version_pattern :: "string \<Rightarrow> bool" where
  "spec_version_pattern t =
     (Option.bind (Option.bind (Option.bind (Option.bind (rx_digits1 t) rx_dot) rx_digits1)
        rx_dot) rx_digits1 = Some [])"

text \<open>
  Modelled from the spec: what the pattern says, stated without a matcher. The text is
  three non-empty strings of digits with a dot between the first and the second and
  between the second and the third.
\<close>

definition digit_string :: "string \<Rightarrow> bool" where
  "digit_string a = (a \<noteq> [] \<and> list_all is_digit a)"

definition dotted_triple :: "string \<Rightarrow> string \<Rightarrow> string \<Rightarrow> string" where
  "dotted_triple a b c = a @ CHR ''.'' # b @ CHR ''.'' # c"

text \<open>
  Modelled from the spec: the two comparisons the specification contrasts, neither of
  which the sources contain. The order of versions is the lexicographic order of
  (major, minor, patch). The comparison of version strings is that of
  \<^verbatim>\<open>strcmp\<close>: byte by byte, a proper prefix first.
\<close>

fun version_le :: "version \<Rightarrow> version \<Rightarrow> bool" where
  "version_le (major1, minor1, patch1) (major2, minor2, patch2) =
     (major1 < major2 \<or>
      (major1 = major2 \<and> (minor1 < minor2 \<or> (minor1 = minor2 \<and> patch1 \<le> patch2))))"

fun string_le :: "string \<Rightarrow> string \<Rightarrow> bool" where
  "string_le [] t = True"
| "string_le (a # as) [] = False"
| "string_le (a # as) (b # bs) =
     ((of_char a :: nat) < of_char b \<or> (a = b \<and> string_le as bs))"

text \<open>
  Modelled from the spec: decoding a version number, which the sources do nowhere. It
  undoes the packing into decimal digits, with the division and remainder of C
  (\<^verbatim>\<open>/\<close> and \<^verbatim>\<open>%\<close> truncate towards zero):
  \<^verbatim>\<open>(n / 1000000, (n / 1000) % 1000, n % 1000)\<close>.
\<close>

definition decode_version :: "int \<Rightarrow> int \<times> int \<times> int" where
  "decode_version n = (n sdiv 1000000, (n sdiv 1000) smod 1000, n smod 1000)"

fun version_as_ints :: "version \<Rightarrow> int \<times> int \<times> int" where
  "version_as_ints (major, minor, patch) = (int major, int minor, int patch)"

section \<open>Translation units\<close>

text \<open>
  A translation unit starts from the empty macro table; a \<^verbatim>\<open>-D\<close> option of the
  compiler's command line acts as a \<^verbatim>\<open>#define\<close> run before the first line of the
  file (\<^verbatim>\<open>-DCOUCHBASE_ENTERPRISE\<close> defines the name as \<^verbatim>\<open>1\<close>).
\<close>

definition empty_state :: pp_state where
  "empty_state = \<lparr>macros = Map.empty, diags = [], define_count = (\<lambda>n. 0)\<rparr>"

text \<open>
  What a translation unit does with the header: it includes it (the header has no
  include guard, so it may do so more than once) and it uses the names. A run collects
  what every use is replaced by, in order, and returns the final state.
\<close>

datatype tu_event = Include_CBL_Edition | Use macro_name

fun run_tu ::
  "tu_event list \<Rightarrow> pp_state \<Rightarrow> (macro_name \<times> replacement option) list \<times> pp_state" where
  "run_tu [] s = ([], s)"
| "run_tu (Include_CBL_Edition # es) s = run_tu es (include_header s)"
| "run_tu (Use n # es) s =
     (case expand n s of
        (r, s') \<Rightarrow> (case run_tu es s' of (obs, s'') \<Rightarrow> ((n, r) # obs, s'')))"

text \<open>The five macros of the header are defined, the four constants with the header's values.\<close>

definition header_in_effect :: "pp_state \<Rightarrow> bool" where
  "header_in_effect s =
     (macros s ''COUCHBASE_ENTERPRISE'' \<noteq> None
      \<and> macros s ''CBLITE_VERSION'' = Some (StrLit ''3.0.1'')
      \<and> macros s ''CBLITE_VERSION_NUMBER'' = Some (IntLit 3000001)
      \<and> macros s ''CBLITE_BUILD_NUMBER'' = Some (IntLit 7)
      \<and> macros s ''CBLITE_SOURCE_ID'' = Some (StrLit ''2022-03-10T16:25:06 988a7ec+3da8078''))"

section \<open>What the directives of a file can depend on\<close>

text \<open>
  The only directive of the fragment that takes a decision is \<^verbatim>\<open>#ifndef\<close>, and it
  looks at whether a name is defined, never at a replacement list. \<open>conditions\<close> lists
  the names a directive tests; \<open>with_body x r'\<close> is the same directive with \<open>r'\<close> as the
  replacement list of every definition of \<open>x\<close>. Two states \<open>agree_off x\<close> when they
  define the same names and give every name but \<open>x\<close> the same replacement list.
\<close>

fun conditions :: "directive \<Rightarrow> macro_name list" where
  "conditions (Define n r) = []"
| "conditions (Ifndef n body) = n # concat (map conditions body)"

fun with_body :: "macro_name \<Rightarrow> replacement \<Rightarrow> directive \<Rightarrow> directive" where
  "with_body x r' (Define n r) = Define n (if n = x then r' else r)"
| "with_body x r' (Ifndef n body) = Ifndef n (map (with_body x r') body)"

definition agree_off :: "macro_name \<Rightarrow> pp_state \<Rightarrow> pp_state \<Rightarrow> bool" where
  "agree_off x s t =
     ((\<forall>n. n \<noteq> x \<longrightarrow> macros s n = macros t n) \<and> (macros s x = None) = (macros t x = None))"

section \<open>The effect of one definition\<close>

lemma macros_define_macro: "macros (define_macro n r s) = (macros s)(n \<mapsto> r)"
  by (simp add: define_macro_def)

lemma diags_define_macro: "diags (define_macro n r s) = diags s @ redefinition n r s"
  by (simp add: define_macro_def)

lemma define_count_define_macro:
  "define_count (define_macro n r s) = (define_count s)(n := Suc (define_count s n))"
  by (simp add: define_macro_def)

lemma redefinition_define_macro:
  "n \<noteq> m \<Longrightarrow> redefinition n r (define_macro m r' s) = redefinition n r s"
  by (simp add: redefinition_def macros_define_macro)

lemma redefinition_same: "macros s n = Some r \<Longrightarrow> redefinition n r s = []"
  by (simp add: redefinition_def)

lemma redefinition_fresh: "macros s n = None \<Longrightarrow> redefinition n r s = []"
  by (simp add: redefinition_def)

lemma redefinition_other:
  "n \<noteq> m \<Longrightarrow> filter (\<lambda>d. d = Redefined m) (redefinition n r s) = []"
  by (simp add: redefinition_def split: option.split)

subsection \<open>The guarded definition\<close>

lemma macros_guard:
  "macros (run_directive (Ifndef n [Define n r]) s) =
     (macros s)(n \<mapsto> (case macros s n of None \<Rightarrow> r | Some old \<Rightarrow> old))"
  by (auto simp: macros_define_macro fun_eq_iff)

lemma diags_guard: "diags (run_directive (Ifndef n [Define n r]) s) = diags s"
  by (simp add: diags_define_macro redefinition_fresh)

lemma define_count_guard:
  "define_count (run_directive (Ifndef n [Define n r]) s) =
     (define_count s)(n := define_count s n + (if macros s n = None then 1 else 0))"
  by (auto simp: define_count_define_macro fun_eq_iff)

lemma redefinition_guard:
  "n \<noteq> m \<Longrightarrow>
   redefinition n r (run_directive (Ifndef m [Define m r']) s) = redefinition n r s"
  by (simp add: redefinition_define_macro)

section \<open>Evaluating the header\<close>

lemma include_header_unfold:
  "include_header s =
     define_macro ''CBLITE_SOURCE_ID'' (StrLit ''2022-03-10T16:25:06 988a7ec+3da8078'')
       (define_macro ''CBLITE_BUILD_NUMBER'' (IntLit 7)
         (define_macro ''CBLITE_VERSION_NUMBER'' (IntLit 3000001)
           (define_macro ''CBLITE_VERSION'' (StrLit ''3.0.1'')
             (run_directive
                (Ifndef ''COUCHBASE_ENTERPRISE'' [Define ''COUCHBASE_ENTERPRISE'' NoTokens])
                s))))"
  by (simp add: include_header_def CBL_Edition_h_def del: run_directive.simps(2))

lemma macros_include_header:
  "macros (include_header s) =
     (macros s)
       (''COUCHBASE_ENTERPRISE'' \<mapsto>
          (case macros s ''COUCHBASE_ENTERPRISE'' of None \<Rightarrow> NoTokens | Some r \<Rightarrow> r),
        ''CBLITE_VERSION'' \<mapsto> StrLit ''3.0.1'',
        ''CBLITE_VERSION_NUMBER'' \<mapsto> IntLit 3000001,
        ''CBLITE_BUILD_NUMBER'' \<mapsto> IntLit 7,
        ''CBLITE_SOURCE_ID'' \<mapsto> StrLit ''2022-03-10T16:25:06 988a7ec+3da8078'')"
  by (simp only: include_header_unfold macros_define_macro macros_guard)

lemma diags_include_header:
  "diags (include_header s) =
     diags s
     @ redefinition ''CBLITE_VERSION'' (StrLit ''3.0.1'') s
     @ redefinition ''CBLITE_VERSION_NUMBER'' (IntLit 3000001) s
     @ redefinition ''CBLITE_BUILD_NUMBER'' (IntLit 7) s
     @ redefinition ''CBLITE_SOURCE_ID'' (StrLit ''2022-03-10T16:25:06 988a7ec+3da8078'') s"
  by (simp add: include_header_unfold diags_define_macro redefinition_define_macro diags_guard
      redefinition_guard del: run_directive.simps)

lemma define_count_include_header:
  "define_count (include_header s) =
     (define_count s)
       (''COUCHBASE_ENTERPRISE'' :=
          define_count s ''COUCHBASE_ENTERPRISE''
          + (if macros s ''COUCHBASE_ENTERPRISE'' = None then 1 else 0),
        ''CBLITE_VERSION'' := Suc (define_count s ''CBLITE_VERSION''),
        ''CBLITE_VERSION_NUMBER'' := Suc (define_count s ''CBLITE_VERSION_NUMBER''),
        ''CBLITE_BUILD_NUMBER'' := Suc (define_count s ''CBLITE_BUILD_NUMBER''),
        ''CBLITE_SOURCE_ID'' := Suc (define_count s ''CBLITE_SOURCE_ID''))"
  by (simp add: include_header_unfold define_count_define_macro define_count_guard
      del: run_directive.simps)

lemma header_in_effect_include: "header_in_effect (include_header s)"
  by (simp add: header_in_effect_def macros_include_header)

lemma include_when_in_effect:
  assumes "header_in_effect s"
  shows "macros (include_header s) = macros s" and "diags (include_header s) = diags s"
proof -
  show "macros (include_header s) = macros s"
    using assms by (auto simp: header_in_effect_def macros_include_header fun_eq_iff)
  show "diags (include_header s) = diags s"
    using assms by (simp add: header_in_effect_def diags_include_header redefinition_same)
qed

subsection \<open>The reads after inclusion\<close>

lemma read_EditionFlag_include: "read_EditionFlag (include_header s)"
  by (simp add: read_EditionFlag_def macros_include_header)

lemma read_VersionString_include:
  "read_VersionString (include_header s) = Some ''3.0.1''"
  by (simp add: read_VersionString_def expand_def as_text_def macros_include_header)

lemma read_VersionNumber_include:
  "read_VersionNumber (include_header s) = Some 3000001"
  by (simp add: read_VersionNumber_def expand_def as_integer_def macros_include_header)

lemma read_BuildNumber_include:
  "read_BuildNumber (include_header s) = Some 7"
  by (simp add: read_BuildNumber_def expand_def as_integer_def macros_include_header)

lemma read_SourceID_include:
  "read_SourceID (include_header s) = Some ''2022-03-10T16:25:06 988a7ec+3da8078''"
  by (simp add: read_SourceID_def expand_def as_text_def macros_include_header)

lemmas reads_include =
  read_EditionFlag_include read_VersionString_include read_VersionNumber_include
  read_BuildNumber_include read_SourceID_include

lemma reads_from_macros:
  assumes "macros t = macros s"
  shows "read_EditionFlag t = read_EditionFlag s"
    and "read_VersionString t = read_VersionString s"
    and "read_VersionNumber t = read_VersionNumber s"
    and "read_BuildNumber t = read_BuildNumber s"
    and "read_SourceID t = read_SourceID s"
  using assms
  by (simp_all add: read_EditionFlag_def read_VersionString_def read_VersionNumber_def
      read_BuildNumber_def read_SourceID_def expand_def)

section \<open>Runs of a translation unit\<close>

lemma run_tu_stable:
  assumes "header_in_effect s"
  shows "macros (snd (run_tu es s)) = macros s
         \<and> diags (snd (run_tu es s)) = diags s
         \<and> (\<forall>(n, r) \<in> set (fst (run_tu es s)). r = macros s n)"
  using assms
proof (induction es arbitrary: s)
  case Nil
  then show ?case by simp
next
  case (Cons e es)
  show ?case
  proof (cases e)
    case Include_CBL_Edition
    have "header_in_effect (include_header s)" by (rule header_in_effect_include)
    from Cons.IH[OF this] show ?thesis
      using Include_CBL_Edition include_when_in_effect[OF Cons.prems] by simp
  next
    case (Use n)
    from Cons.IH[OF Cons.prems] show ?thesis
      using Use by (auto simp: expand_def split: prod.splits)
  qed
qed

section \<open>Replacement lists are opaque to the directives\<close>

lemma agree_off_refl: "agree_off x s s"
  by (simp add: agree_off_def)

lemma agree_off_defined: "agree_off x s t \<Longrightarrow> (macros s n = None) = (macros t n = None)"
  by (cases "n = x") (simp_all add: agree_off_def)

lemma agree_off_define:
  "agree_off x s t \<Longrightarrow>
   agree_off x (define_macro n (if n = x then r' else r) s) (define_macro n r t)"
  by (simp add: agree_off_def macros_define_macro)

lemma with_body_simulation:
  "agree_off x s t \<Longrightarrow> agree_off x (run_directive (with_body x r' d) s) (run_directive d t)"
  "agree_off x s t \<Longrightarrow>
   agree_off x (preprocess (map (with_body x r') ds) s) (preprocess ds t)"
proof (induction d t and ds t arbitrary: s and s rule: run_directive_preprocess.induct)
  case (1 n r t)
  then show ?case by (simp add: agree_off_define)
next
  case (2 n body t)
  then show ?case using agree_off_defined[OF "2.prems", of n] by simp
next
  case (3 t)
  then show ?case by simp
next
  case (4 d ds t)
  then show ?case by simp
qed

lemma body_is_opaque:
  "n \<noteq> x \<Longrightarrow>
   macros (preprocess (map (with_body x r') ds) s) n = macros (preprocess ds s) n"
  using with_body_simulation(2)[OF agree_off_refl, of x r' ds s] by (simp add: agree_off_def)

lemma conditions_header: "concat (map conditions CBL_Edition_h) = [''COUCHBASE_ENTERPRISE'']"
  by (simp add: CBL_Edition_h_def)

section \<open>Arithmetic of the encoding\<close>

lemma sdiv_nonneg: "0 \<le> (n::int) \<Longrightarrow> 0 < m \<Longrightarrow> n sdiv m = n div m"
  by (cases "n = 0") (simp_all add: signed_divide_int_def)

lemma smod_nonneg: "0 \<le> (n::int) \<Longrightarrow> 0 < m \<Longrightarrow> n smod m = n mod m"
  by (simp add: smod_mod_positive)

lemma encode_order:
  assumes "minor1 < 1000" "patch1 < 1000" "minor2 < 1000" "patch2 < 1000"
  shows "(spec_encode_version (major1, minor1, patch1)
            \<le> spec_encode_version (major2, minor2, patch2))
         = version_le (major1, minor1, patch1) (major2, minor2, patch2)"
  using assms by simp arith

lemma decode_encode:
  assumes "minor < 1000" "patch < 1000"
  shows "decode_version (spec_encode_version (major, minor, patch))
         = (int major, int minor, int patch)"
proof -
  let ?n = "int major * 1000000 + int minor * 1000 + int patch"
  have n0: "0 \<le> ?n" by simp
  have q0: "0 \<le> ?n div 1000" by simp
  have a: "?n div 1000000 = int major" using assms by simp
  have b: "?n div 1000 = int major * 1000 + int minor" using assms by simp
  have "?n mod 1000 = ?n - ?n div 1000 * 1000"
    by (simp only: minus_div_mult_eq_mod)
  then have c: "?n mod 1000 = int patch" by (simp only: b) simp
  have d: "(int major * 1000 + int minor) mod 1000 = int minor" using assms by simp
  show ?thesis
    using n0 q0 a b c d by (simp add: decode_version_def sdiv_nonneg smod_nonneg)
qed

text \<open>
  With every component below 1000 the number is below \<open>10^9\<close>, so it is a value of a 32-bit
  \<^verbatim>\<open>int\<close> and the unbounded integers of the model lose nothing.
\<close>

lemma encode_fits_int32:
  assumes "major < 1000" "minor < 1000" "patch < 1000"
  shows "0 \<le> spec_encode_version (major, minor, patch)"
    and "spec_encode_version (major, minor, patch) < 2 ^ 31"
  using assms by simp_all

section \<open>Evaluating the specification's parser\<close>

lemmas parse_simps = spec_parse_version_def spec_decimal_def is_digit_def digit_val_def

lemma spec_parse_shipped: "spec_parse_version ''3.0.1'' = Some (3, 0, 1)"
  by (simp add: parse_simps)

lemma spec_parse_hypothetical: "spec_parse_version ''12.34.5'' = Some (12, 34, 5)"
  by (simp add: parse_simps)

section \<open>The pattern and the parser accept the same texts\<close>

lemma dot_not_digit: "\<not> is_digit CHR ''.''"
  by (simp add: is_digit_def)

lemma digit_string_no_dot: "digit_string a \<Longrightarrow> CHR ''.'' \<notin> set a"
  using dot_not_digit by (auto simp: digit_string_def list_all_iff)

subsection \<open>The matcher\<close>

lemma rx_digits1_append:
  assumes "digit_string a" and "u = [] \<or> \<not> is_digit (hd u)"
  shows "rx_digits1 (a @ u) = Some u"
proof -
  from assms(1) obtain x a' where a: "a = x # a'" and x: "is_digit x"
    and a': "\<forall>c\<in>set a'. is_digit c"
    by (cases a) (auto simp: digit_string_def list_all_iff)
  have "dropWhile is_digit (a' @ u) = dropWhile is_digit u"
    using a' by simp
  also have "\<dots> = u"
    using assms(2) by (simp add: dropWhile_eq_self_iff)
  finally show ?thesis
    using a x by (simp add: rx_digits1_def)
qed

lemma rx_digits1_Some:
  assumes "rx_digits1 t = Some u"
  shows "\<exists>a. digit_string a \<and> t = a @ u"
proof -
  from assms obtain x cs where t: "t = x # cs" and x: "is_digit x"
    and u: "u = dropWhile is_digit cs"
    by (cases t) (auto simp: rx_digits1_def split: if_splits)
  have "digit_string (x # takeWhile is_digit cs)"
    using x by (auto simp: digit_string_def list_all_iff dest: set_takeWhileD)
  moreover have "t = (x # takeWhile is_digit cs) @ u"
    using t u by simp
  ultimately show ?thesis by blast
qed

lemma rx_dot_Some: "rx_dot t = Some u \<longleftrightarrow> t = CHR ''.'' # u"
  by (cases t) (auto simp: rx_dot_def)

lemma pattern_dotted_triple:
  assumes "digit_string a" "digit_string b" "digit_string c"
  shows "spec_version_pattern (dotted_triple a b c)"
proof -
  have 1: "rx_digits1 (a @ CHR ''.'' # b @ CHR ''.'' # c) = Some (CHR ''.'' # b @ CHR ''.'' # c)"
    using assms(1) dot_not_digit by (intro rx_digits1_append) simp_all
  have 2: "rx_digits1 (b @ CHR ''.'' # c) = Some (CHR ''.'' # c)"
    using assms(2) dot_not_digit by (intro rx_digits1_append) simp_all
  have 3: "rx_digits1 c = Some []"
    using rx_digits1_append[OF assms(3), of "[]"] by simp
  show ?thesis
    by (simp add: spec_version_pattern_def dotted_triple_def 1 2 3 rx_dot_def)
qed

lemma pattern_is_dotted_triple:
  assumes "spec_version_pattern t"
  shows "\<exists>a b c. digit_string a \<and> digit_string b \<and> digit_string c \<and> t = dotted_triple a b c"
proof -
  from assms obtain u1 u2 u3 u4 where
    1: "rx_digits1 t = Some u1" and 2: "rx_dot u1 = Some u2" and
    3: "rx_digits1 u2 = Some u3" and 4: "rx_dot u3 = Some u4" and
    5: "rx_digits1 u4 = Some []"
    by (auto simp: spec_version_pattern_def bind_eq_Some_conv)
  from rx_digits1_Some[OF 1] obtain a where a: "digit_string a" "t = a @ u1" by blast
  from rx_digits1_Some[OF 3] obtain b where b: "digit_string b" "u2 = b @ u3" by blast
  from rx_digits1_Some[OF 5] obtain c where c: "digit_string c" "u4 = c" by auto
  have "t = dotted_triple a b c"
    using a(2) b(2) c(2) 2 4 by (simp add: rx_dot_Some dotted_triple_def)
  with a(1) b(1) c(1) show ?thesis by blast
qed

subsection \<open>The parser\<close>

lemma decimal_from_None: "(decimal_from acc t = None) = (\<not> list_all is_digit t)"
  by (induction t arbitrary: acc) simp_all

lemma spec_decimal_None: "(spec_decimal a = None) = (\<not> digit_string a)"
  by (simp add: spec_decimal_def digit_string_def decimal_from_None)

lemma split_dots_nonempty: "split_dots t \<noteq> []"
  by (induction t) (simp_all split: list.split)

lemma split_dots_field:
  "CHR ''.'' \<notin> set a \<Longrightarrow> split_dots (a @ CHR ''.'' # r) = a # split_dots r"
  by (induction a) auto

lemma split_dots_last: "CHR ''.'' \<notin> set a \<Longrightarrow> split_dots a = [a]"
  by (induction a) auto

lemma split_dots_Cons:
  "split_dots t = f # fs \<Longrightarrow>
   (fs = [] \<and> t = f) \<or> (\<exists>r. t = f @ CHR ''.'' # r \<and> split_dots r = fs)"
proof (induction t arbitrary: f)
  case Nil
  then show ?case by simp
next
  case (Cons x t)
  show ?case
  proof (cases "x = CHR ''.''")
    case True
    with Cons.prems show ?thesis by auto
  next
    case False
    with Cons.prems obtain g where g: "split_dots t = g # fs" and f: "f = x # g"
      using split_dots_nonempty[of t] by (auto split: list.splits)
    from Cons.IH[OF g] f show ?thesis by auto
  qed
qed

lemma split_dots_three:
  assumes "split_dots t = [a, b, c]"
  shows "t = dotted_triple a b c"
proof -
  from split_dots_Cons[OF assms] obtain r where r: "t = a @ CHR ''.'' # r" "split_dots r = [b, c]"
    by auto
  from split_dots_Cons[OF r(2)] obtain r' where r': "r = b @ CHR ''.'' # r'" "split_dots r' = [c]"
    by auto
  from split_dots_Cons[OF r'(2)] have "r' = c"
    using split_dots_nonempty by auto
  with r r' show ?thesis by (simp add: dotted_triple_def)
qed

lemma parse_dotted_triple:
  assumes "digit_string a" "digit_string b" "digit_string c"
  shows "spec_parse_version (dotted_triple a b c) \<noteq> None"
proof -
  have "split_dots (dotted_triple a b c) = [a, b, c]"
    using assms by (simp add: dotted_triple_def split_dots_field split_dots_last digit_string_no_dot)
  moreover obtain x y z where
    "spec_decimal a = Some x" "spec_decimal b = Some y" "spec_decimal c = Some z"
    using assms spec_decimal_None by (metis not_None_eq)
  ultimately show ?thesis by (simp add: spec_parse_version_def)
qed

lemma parse_is_dotted_triple:
  assumes "spec_parse_version t \<noteq> None"
  shows "\<exists>a b c. digit_string a \<and> digit_string b \<and> digit_string c \<and> t = dotted_triple a b c"
proof -
  from assms obtain a b c where s: "split_dots t = [a, b, c]"
    and d: "spec_decimal a \<noteq> None" "spec_decimal b \<noteq> None" "spec_decimal c \<noteq> None"
    by (auto simp: spec_parse_version_def split: list.splits option.splits)
  from d have "digit_string a \<and> digit_string b \<and> digit_string c"
    by (metis spec_decimal_None)
  with split_dots_three[OF s] show ?thesis by blast
qed

lemma pattern_iff_parses: "spec_version_pattern t = (spec_parse_version t \<noteq> None)"
  using pattern_dotted_triple pattern_is_dotted_triple parse_dotted_triple parse_is_dotted_triple
  by metis

section \<open>The claims\<close>

text \<open>
  C1. Whatever the macro table was before the header is included, the version number
  read afterwards is the encoding \<open>major * 1_000_000 + minor * 1_000 + patch\<close> of the
  three integers parsed from the version string read afterwards; the string is
  \<open>3.0.1\<close> and the number is 3000001. The specification's hypothetical \<open>12.34.5\<close>
  encodes to 12034005.
\<close>

theorem version_number_encodes_version_string:
  "read_VersionNumber (include_header s) =
     map_option spec_encode_version
       (Option.bind (read_VersionString (include_header s)) spec_parse_version)
   \<and> read_VersionString (include_header s) = Some ''3.0.1''
   \<and> read_VersionNumber (include_header s) = Some 3000001
   \<and> map_option spec_encode_version (spec_parse_version ''12.34.5'') = Some 12034005"
  by (simp add: read_VersionString_include read_VersionNumber_include
      spec_parse_shipped spec_parse_hypothetical)

text \<open>
  C2. The header's \<^verbatim>\<open>#define COUCHBASE_ENTERPRISE\<close> runs only if the name is not
  defined yet: the header adds one definition of the flag when there was none and none
  when there was one, so a flag defined at most once before has exactly one definition
  afterwards, and a second inclusion adds none. A definition made before the header is
  kept as it is, no redefinition of the flag is reported, and reading the flag after
  the inclusion gives a boolean, which is true.
\<close>

theorem edition_flag_defined_exactly_once:
  "define_count (include_header s) ''COUCHBASE_ENTERPRISE''
     = define_count s ''COUCHBASE_ENTERPRISE''
       + (if macros s ''COUCHBASE_ENTERPRISE'' = None then 1 else 0)
   \<and> (macros s ''COUCHBASE_ENTERPRISE'' = None \<longrightarrow>
        macros (include_header s) ''COUCHBASE_ENTERPRISE'' = Some NoTokens)
   \<and> (macros s ''COUCHBASE_ENTERPRISE'' \<noteq> None \<longrightarrow>
        macros (include_header s) ''COUCHBASE_ENTERPRISE'' = macros s ''COUCHBASE_ENTERPRISE'')
   \<and> filter (\<lambda>d. d = Redefined ''COUCHBASE_ENTERPRISE'') (diags (include_header s))
       = filter (\<lambda>d. d = Redefined ''COUCHBASE_ENTERPRISE'') (diags s)
   \<and> (define_count s ''COUCHBASE_ENTERPRISE''
         = (if macros s ''COUCHBASE_ENTERPRISE'' = None then 0 else 1) \<longrightarrow>
        define_count (include_header s) ''COUCHBASE_ENTERPRISE'' = 1)
   \<and> define_count (include_header (include_header s)) ''COUCHBASE_ENTERPRISE''
       = define_count (include_header s) ''COUCHBASE_ENTERPRISE''
   \<and> read_EditionFlag (include_header s)"
proof -
  have count: "define_count (include_header t) ''COUCHBASE_ENTERPRISE''
      = define_count t ''COUCHBASE_ENTERPRISE''
        + (if macros t ''COUCHBASE_ENTERPRISE'' = None then 1 else 0)" for t
    by (simp add: define_count_include_header)
  have kept: "macros (include_header s) ''COUCHBASE_ENTERPRISE''
      = Some (case macros s ''COUCHBASE_ENTERPRISE'' of None \<Rightarrow> NoTokens | Some r \<Rightarrow> r)"
    by (simp add: macros_include_header)
  have quiet: "filter (\<lambda>d. d = Redefined ''COUCHBASE_ENTERPRISE'') (diags (include_header s))
      = filter (\<lambda>d. d = Redefined ''COUCHBASE_ENTERPRISE'') (diags s)"
    by (simp add: diags_include_header redefinition_other)
  have again: "macros (include_header s) ''COUCHBASE_ENTERPRISE'' \<noteq> None"
    using kept by simp
  show ?thesis
    using count[of s] count[of "include_header s"] kept quiet again
    by (auto simp: read_EditionFlag_def)
qed

text \<open>
  The two ways a translation unit reaches the header: with no definition of the flag,
  and with \<^verbatim>\<open>-DCOUCHBASE_ENTERPRISE\<close> on the command line.
\<close>

theorem edition_flag_defined_exactly_once_witness:
  "define_count (include_header empty_state) ''COUCHBASE_ENTERPRISE'' = 1
   \<and> macros (include_header empty_state) ''COUCHBASE_ENTERPRISE'' = Some NoTokens
   \<and> define_count
        (include_header (define_macro ''COUCHBASE_ENTERPRISE'' (IntLit 1) empty_state))
        ''COUCHBASE_ENTERPRISE'' = 1
   \<and> macros
        (include_header (define_macro ''COUCHBASE_ENTERPRISE'' (IntLit 1) empty_state))
        ''COUCHBASE_ENTERPRISE'' = Some (IntLit 1)"
  using edition_flag_defined_exactly_once[of empty_state]
    edition_flag_defined_exactly_once
      [of "define_macro ''COUCHBASE_ENTERPRISE'' (IntLit 1) empty_state"]
  by (simp add: empty_state_def define_macro_def)

text \<open>
  C3. The version string read after the inclusion is not empty, matches
  \<^verbatim>\<open>^\d+\.\d+\.\d+$\<close> and parses as three non-negative integers separated by dots
  (3, 0 and 1). Matching the pattern and parsing as such a triple are the same thing
  for every text: both hold exactly of the texts made of three non-empty strings of
  digits with dots between them.
\<close>

theorem version_string_format:
  "(\<exists>v. read_VersionString (include_header s) = Some v
        \<and> v \<noteq> []
        \<and> spec_version_pattern v
        \<and> spec_parse_version v = Some (3, 0, 1))
   \<and> spec_version_pattern t = (spec_parse_version t \<noteq> None)
   \<and> spec_version_pattern t
       = (\<exists>a b c. digit_string a \<and> digit_string b \<and> digit_string c
             \<and> t = dotted_triple a b c)"
proof -
  have shipped: "spec_version_pattern ''3.0.1''"
    by (simp add: spec_version_pattern_def rx_digits1_def rx_dot_def is_digit_def)
  have meaning: "spec_version_pattern t
       = (\<exists>a b c. digit_string a \<and> digit_string b \<and> digit_string c
             \<and> t = dotted_triple a b c)"
    using pattern_dotted_triple pattern_is_dotted_triple by blast
  show ?thesis
    using shipped meaning pattern_iff_parses[of t]
    by (simp add: read_VersionString_include spec_parse_shipped)
qed

text \<open>
  C4. For two versions with every component below 1000, the encoded numbers compare as
  the versions do in the lexicographic order of (major, minor, patch); in particular
  a required version is at most the header's version number exactly when it is at most
  3.0.1. The comparison of the version strings is not correct: 3.9.0 is below 3.10.0
  as a version and as a number, and above it as a string.
\<close>

theorem version_encoding_order_correct:
  assumes "major1 < 1000" "minor1 < 1000" "patch1 < 1000"
    and "major2 < 1000" "minor2 < 1000" "patch2 < 1000"
  shows "(spec_encode_version (major1, minor1, patch1)
            \<le> spec_encode_version (major2, minor2, patch2))
         = version_le (major1, minor1, patch1) (major2, minor2, patch2)
       \<and> (\<exists>n. read_VersionNumber (include_header s) = Some n
              \<and> (spec_encode_version (major1, minor1, patch1) \<le> n)
                 = version_le (major1, minor1, patch1) (3, 0, 1))
       \<and> spec_parse_version ''3.9.0'' = Some (3, 9, 0)
       \<and> spec_parse_version ''3.10.0'' = Some (3, 10, 0)
       \<and> version_le (3, 9, 0) (3, 10, 0)
       \<and> spec_encode_version (3, 9, 0) \<le> spec_encode_version (3, 10, 0)
       \<and> \<not> string_le ''3.9.0'' ''3.10.0''"
proof -
  have general: "(spec_encode_version (major1, minor1, patch1)
            \<le> spec_encode_version (major2, minor2, patch2))
         = version_le (major1, minor1, patch1) (major2, minor2, patch2)"
    using assms by (intro encode_order)
  have "(spec_encode_version (major1, minor1, patch1) \<le> spec_encode_version (3, 0, 1))
         = version_le (major1, minor1, patch1) (3, 0, 1)"
    using assms by (intro encode_order) simp_all
  then have shipped: "\<exists>n. read_VersionNumber (include_header s) = Some n
              \<and> (spec_encode_version (major1, minor1, patch1) \<le> n)
                 = version_le (major1, minor1, patch1) (3, 0, 1)"
    by (simp add: read_VersionNumber_include)
  have parse: "spec_parse_version ''3.9.0'' = Some (3, 9, 0)"
    "spec_parse_version ''3.10.0'' = Some (3, 10, 0)"
    by (simp_all add: parse_simps)
  have strings: "\<not> string_le ''3.9.0'' ''3.10.0''"
    by simp
  show ?thesis
    using general shipped parse strings by simp
qed

text \<open>The versions 2.5.12 and 3.0.1, compared both ways.\<close>

theorem version_encoding_order_correct_witness:
  "(2::nat) < 1000 \<and> (5::nat) < 1000 \<and> (12::nat) < 1000 \<and> (3::nat) < 1000 \<and> (0::nat) < 1000
   \<and> (1::nat) < 1000
   \<and> (spec_encode_version (2, 5, 12) \<le> spec_encode_version (3, 0, 1)) = version_le (2, 5, 12) (3, 0, 1)
   \<and> version_le (2, 5, 12) (3, 0, 1)
   \<and> \<not> version_le (3, 0, 1) (2, 5, 12)
   \<and> \<not> spec_encode_version (3, 0, 1) \<le> spec_encode_version (2, 5, 12)"
  using version_encoding_order_correct[of 2 5 12 3 0 1 empty_state]
    version_encoding_order_correct[of 3 0 1 2 5 12 empty_state]
  by simp

text \<open>
  C5. After the header has been included, whatever the translation unit goes on to do
  with it (use the names, include the header again, in any order and number), every
  use of a name is replaced by what the first use was replaced by, a use leaves the
  state as it is, and the five reads give at the end what they gave at the start. What
  they give does not depend on the macro table the header was included into.
\<close>

theorem reads_are_stable:
  "((n, r) \<in> set (fst (run_tu es (include_header s))) \<longrightarrow>
      r = fst (expand n (include_header s)))
   \<and> snd (expand n (include_header s)) = include_header s
   \<and> macros (snd (run_tu es (include_header s))) = macros (include_header s)
   \<and> read_EditionFlag (snd (run_tu es (include_header s))) = read_EditionFlag (include_header s)
   \<and> read_VersionString (snd (run_tu es (include_header s)))
       = read_VersionString (include_header s)
   \<and> read_VersionNumber (snd (run_tu es (include_header s)))
       = read_VersionNumber (include_header s)
   \<and> read_BuildNumber (snd (run_tu es (include_header s))) = read_BuildNumber (include_header s)
   \<and> read_SourceID (snd (run_tu es (include_header s))) = read_SourceID (include_header s)
   \<and> read_EditionFlag (include_header s) = read_EditionFlag (include_header s')
   \<and> read_VersionString (include_header s) = read_VersionString (include_header s')
   \<and> read_VersionNumber (include_header s) = read_VersionNumber (include_header s')
   \<and> read_BuildNumber (include_header s) = read_BuildNumber (include_header s')
   \<and> read_SourceID (include_header s) = read_SourceID (include_header s')"
proof -
  have eff: "header_in_effect (include_header s)"
    by (rule header_in_effect_include)
  note stable = run_tu_stable[OF eff, of es]
  have same: "macros (snd (run_tu es (include_header s))) = macros (include_header s)"
    using stable by simp
  have obs: "(n, r) \<in> set (fst (run_tu es (include_header s))) \<longrightarrow>
      r = fst (expand n (include_header s))"
    using stable by (auto simp: expand_def)
  show ?thesis
    using obs same reads_from_macros[OF same]
    by (simp add: reads_include expand_def)
qed

text \<open>
  A run that reads the version string, the build number, includes the header again and
  reads the version string again.
\<close>

theorem reads_are_stable_witness:
  "(''CBLITE_VERSION'', Some (StrLit ''3.0.1''))
     \<in> set (fst (run_tu
          [Use ''CBLITE_VERSION'', Use ''CBLITE_BUILD_NUMBER'', Include_CBL_Edition,
           Use ''CBLITE_VERSION'']
          (include_header empty_state)))
   \<and> Some (StrLit ''3.0.1'') = fst (expand ''CBLITE_VERSION'' (include_header empty_state))"
proof -
  have "(''CBLITE_VERSION'', Some (StrLit ''3.0.1''))
     \<in> set (fst (run_tu
          [Use ''CBLITE_VERSION'', Use ''CBLITE_BUILD_NUMBER'', Include_CBL_Edition,
           Use ''CBLITE_VERSION'']
          (include_header empty_state)))"
    by (simp add: expand_def macros_include_header)
  then show ?thesis
    using reads_are_stable[of "''CBLITE_VERSION''" "Some (StrLit ''3.0.1'')"
        "[Use ''CBLITE_VERSION'', Use ''CBLITE_BUILD_NUMBER'', Include_CBL_Edition,
           Use ''CBLITE_VERSION'']" empty_state empty_state]
    by blast
qed

text \<open>
  C6. The build number read after the inclusion is a fixed integer, 7, which is not
  negative.
\<close>

theorem build_number_nonnegative:
  "\<exists>n. read_BuildNumber (include_header s) = Some n \<and> 0 \<le> n \<and> n = 7"
  by (simp add: read_BuildNumber_include)

text \<open>
  C7. After the inclusion, from any macro table, each of the five reads gives its
  value: the flag is true, the two texts and the two integers are those of the header,
  every one of the five names has a replacement list, and a use reports no diagnostic.
\<close>

theorem reads_cannot_fail:
  "read_EditionFlag (include_header s)
   \<and> read_VersionString (include_header s) = Some ''3.0.1''
   \<and> read_VersionNumber (include_header s) = Some 3000001
   \<and> read_BuildNumber (include_header s) = Some 7
   \<and> read_SourceID (include_header s) = Some ''2022-03-10T16:25:06 988a7ec+3da8078''
   \<and> fst (expand ''COUCHBASE_ENTERPRISE'' (include_header s)) \<noteq> None
   \<and> fst (expand ''CBLITE_VERSION'' (include_header s)) \<noteq> None
   \<and> fst (expand ''CBLITE_VERSION_NUMBER'' (include_header s)) \<noteq> None
   \<and> fst (expand ''CBLITE_BUILD_NUMBER'' (include_header s)) \<noteq> None
   \<and> fst (expand ''CBLITE_SOURCE_ID'' (include_header s)) \<noteq> None
   \<and> diags (snd (expand n (include_header s))) = diags (include_header s)"
  by (simp add: reads_include expand_def macros_include_header)

text \<open>
  C8. The source id read after the inclusion is a fixed text that is not empty. Nothing
  in the header looks into it: no directive of the header tests the name, and with any
  other replacement list in its place the header defines every other name as before
  (and \<^verbatim>\<open>CBLITE_SOURCE_ID\<close> as that list).
\<close>

theorem source_id_is_opaque:
  "(\<exists>t. read_SourceID (include_header s) = Some t \<and> t \<noteq> []
        \<and> t = ''2022-03-10T16:25:06 988a7ec+3da8078'')
   \<and> ''CBLITE_SOURCE_ID'' \<notin> set (concat (map conditions CBL_Edition_h))
   \<and> (n \<noteq> ''CBLITE_SOURCE_ID'' \<longrightarrow>
        macros (preprocess (map (with_body ''CBLITE_SOURCE_ID'' r') CBL_Edition_h) s) n
        = macros (include_header s) n)
   \<and> (macros (preprocess (map (with_body ''CBLITE_SOURCE_ID'' r') CBL_Edition_h) s)
          ''CBLITE_SOURCE_ID'' = Some r')"
proof -
  have changed: "macros (preprocess (map (with_body ''CBLITE_SOURCE_ID'' r') CBL_Edition_h) s)
          ''CBLITE_SOURCE_ID'' = Some r'"
    by (simp add: CBL_Edition_h_def macros_define_macro)
  show ?thesis
    using changed
      body_is_opaque[of n "''CBLITE_SOURCE_ID''" r' CBL_Edition_h s, folded include_header_def]
    by (simp add: read_SourceID_include conditions_header)
qed

text \<open>With another source id the version string is the same.\<close>

theorem source_id_is_opaque_witness:
  "''CBLITE_VERSION'' \<noteq> ''CBLITE_SOURCE_ID''
   \<and> macros (preprocess (map (with_body ''CBLITE_SOURCE_ID'' (StrLit ''unknown'')) CBL_Edition_h)
         empty_state) ''CBLITE_VERSION''
     = Some (StrLit ''3.0.1'')"
  using source_id_is_opaque[of empty_state "''CBLITE_VERSION''" "StrLit ''unknown''"]
  by (simp add: macros_include_header)

text \<open>
  C9. After the inclusion the edition flag is defined, from any macro table: from the
  empty one, and from one where the command line defined the flag. No macro table leads
  through the header to a state without the flag.
\<close>

theorem edition_flag_always_defined:
  "read_EditionFlag (include_header s)
   \<and> fst (expand ''COUCHBASE_ENTERPRISE'' (include_header s)) \<noteq> None
   \<and> (\<nexists>s'. \<not> read_EditionFlag (include_header s'))
   \<and> read_EditionFlag (include_header empty_state)
   \<and> read_EditionFlag
        (include_header (define_macro ''COUCHBASE_ENTERPRISE'' (IntLit 1) empty_state))"
  by (simp add: read_EditionFlag_include expand_def macros_include_header)

text \<open>
  C10. Decoding the header's version number gives (3, 0, 1), the three integers of the
  header's version string. For components below 1000 decoding an encoded version gives
  the version back, and two versions have the same number only if they are the same.
\<close>

theorem version_encoding_round_trips:
  assumes "major1 < 1000" "minor1 < 1000" "patch1 < 1000"
    and "major2 < 1000" "minor2 < 1000" "patch2 < 1000"
  shows "map_option decode_version (read_VersionNumber (include_header s)) = Some (3, 0, 1)
       \<and> map_option decode_version (read_VersionNumber (include_header s))
         = map_option version_as_ints
             (Option.bind (read_VersionString (include_header s)) spec_parse_version)
       \<and> decode_version (spec_encode_version (major1, minor1, patch1))
         = version_as_ints (major1, minor1, patch1)
       \<and> (spec_encode_version (major1, minor1, patch1)
            = spec_encode_version (major2, minor2, patch2))
         = ((major1, minor1, patch1) = (major2, minor2, patch2))"
proof -
  have shipped: "decode_version 3000001 = (3, 0, 1)"
    by (simp add: decode_version_def)
  have d1: "decode_version (spec_encode_version (major1, minor1, patch1))
         = (int major1, int minor1, int patch1)"
    using assms by (intro decode_encode)
  have d2: "decode_version (spec_encode_version (major2, minor2, patch2))
         = (int major2, int minor2, int patch2)"
    using assms by (intro decode_encode)
  have inj: "(spec_encode_version (major1, minor1, patch1)
            = spec_encode_version (major2, minor2, patch2))
         = ((major1, minor1, patch1) = (major2, minor2, patch2))"
  proof
    assume "spec_encode_version (major1, minor1, patch1)
            = spec_encode_version (major2, minor2, patch2)"
    then have "(int major1, int minor1, int patch1) = (int major2, int minor2, int patch2)"
      using d1 d2 by simp
    then show "(major1, minor1, patch1) = (major2, minor2, patch2)" by simp
  next
    assume "(major1, minor1, patch1) = (major2, minor2, patch2)"
    then show "spec_encode_version (major1, minor1, patch1)
            = spec_encode_version (major2, minor2, patch2)" by simp
  qed
  show ?thesis
    using shipped d1 inj
    by (simp add: read_VersionNumber_include read_VersionString_include spec_parse_shipped)
qed

text \<open>The specification's 12.34.5 and the header's 3.0.1.\<close>

theorem version_encoding_round_trips_witness:
  "(12::nat) < 1000 \<and> (34::nat) < 1000 \<and> (5::nat) < 1000
   \<and> (3::nat) < 1000 \<and> (0::nat) < 1000 \<and> (1::nat) < 1000
   \<and> decode_version (spec_encode_version (12, 34, 5)) = (12, 34, 5)
   \<and> decode_version 12034005 = (12, 34, 5)
   \<and> spec_encode_version (12, 34, 5) \<noteq> spec_encode_version (3, 0, 1)"
  using version_encoding_round_trips[of 12 34 5 3 0 1 empty_state]
  by simp

end
